theory Spec2Isabelle
  imports Main "HOL-Library.Word" "HOL-Library.Signed_Division"
begin

section \<open>The ECS API client of the agent (agent/api/api_client.go)\<close>

text \<open>
  The client registers a container instance with a cluster and reports task and
  container state changes. Every collaborator it talks to (the EC2 metadata client, the
  probes of the host, the TLS dialer and the generated service client) is a field of the
  record \<open>deps\<close> below: a function over a state \<open>'w\<close> of the outside world that the
  client cannot see into. Every call that leaves the process is appended to a trace, so
  that a statement such as "CreateCluster is never invoked" is a statement about the
  trace.
\<close>

subsection \<open>Go values\<close>

type_synonym int32 = "32 word"
type_synonym int64 = "64 word"
type_synonym uint16 = "16 word"
type_synonym addr = nat

text \<open>
  A Go \<open>error\<close>. \<open>ErrorsNew m\<close> is the value of \<open>errors.New(m)\<close> evaluated in this
  file; \<open>Foreign d\<close> is an error value handed back by a collaborator.
\<close>

datatype error = ErrorsNew string | Foreign string

text \<open>
  A function call either returns or panics. The only panic this file can raise itself is
  the nil dereference of line 88.
\<close>

datatype 'a outcome = Panic | Return 'a

text \<open>
  \<open>NewStateChangeError\<close> wraps an error into the \<open>utils.RetriableError\<close> that the
  submit operations return; a nil \<open>utils.RetriableError\<close> is \<open>None\<close>.
\<close>

datatype StateChangeError = NewStateChangeError error

text \<open>
  Modelled from the spec: the method \<open>Retry\<close> of the value that \<open>NewStateChangeError\<close>
  builds is declared outside api_client.go. Section 7 of the specification classifies
  a locally detected validation error as non-retriable and a failure of the RPC channel
  reported by a state-change submission as retriable.
\<close>

fun Retry :: "StateChangeError \<Rightarrow> bool" where
  "Retry (NewStateChangeError (ErrorsNew m)) = False"
| "Retry (NewStateChangeError (Foreign d)) = True"

subsection \<open>Declarations of other packages that this file reads\<close>

text \<open>
  Modelled from the spec: \<open>config.Config\<close> is declared outside api_client.go. The
  record holds the fields this file reads; the reserved ports are 16-bit unsigned, as
  the call \<open>utils.Uint16SliceToStringSlice(client.config.ReservedPorts)\<close> shows.
\<close>

record Config =
  ClusterArn :: string
  AWSRegion :: string
  APIEndpoint :: string
  APIPort :: uint16
  ReservedPorts :: "uint16 list"

text \<open>
  Modelled from the spec: \<open>config.DEFAULT_CLUSTER_NAME\<close> is declared outside
  api_client.go; the value is the default cluster name of the specification's example
  scenario. No general theorem below unfolds it.
\<close>

definition DEFAULT_CLUSTER_NAME :: string where
  "DEFAULT_CLUSTER_NAME = ''default''"

text \<open>
  Modelled from the spec: \<open>PortBinding\<close> and \<open>ContainerStateChange\<close> are declared
  outside api_client.go. A state change holds its port bindings by value (a slice of
  structs) and its exit code behind a pointer to a Go \<open>int\<close> (64 bits here), which
  line 289 compares with nil; the ports of a binding are 16-bit unsigned like the
  reserved ports. The specification lists the bind address, the host port and the
  container port of a binding. Fields of a state change that this file never reads
  live in the record's extension, so a theorem about every change is a theorem about
  every value of those fields too.
\<close>

record PortBinding =
  ContainerPort :: uint16
  HostPort :: uint16
  BindIp :: string

record ('cs, 'ts) ContainerStateChange =
  TaskArn :: string
  ContainerName :: string
  Status :: 'cs
  ExitCode :: "int64 option"
  PortBindings :: "PortBinding list"
  TaskStatus :: 'ts

text \<open>
  The two resources that the file reads from the EC2 metadata client, and the result of
  \<open>system.ReadMemInfo\<close> of the Docker library with the one field the file reads.
\<close>

datatype metadata_resource =
  INSTANCE_IDENTITY_DOCUMENT_RESOURCE | INSTANCE_IDENTITY_DOCUMENT_SIGNATURE_RESOURCE

record MemInfo =
  MemTotal :: int64

subsection \<open>The object model of the generated service client\<close>

text \<open>
  Every setter of the generated client takes a pointer and every getter returns one (the
  file dereferences \<open>*resp.Endpoint()\<close>, \<open>*cluster.ClusterName()\<close>): a field of a
  request is a pointer, \<open>None\<close> while it is nil. Where the pointer is the address of a
  variable that is not assigned again before the request is sent, the field is modelled
  by the value it points to. The one place where that is not so is the loop of lines
  294 to 302, modelled with an explicit store further down.
\<close>

record Resource =
  resName :: "string option"
  resType :: "string option"
  resIntegerValue :: "int32 option"
  resStringSetValue :: "string list option"

definition NewResource :: Resource where
  "NewResource = \<lparr>resName = None, resType = None, resIntegerValue = None, resStringSetValue = None\<rparr>"

record RegisterContainerInstanceRequest =
  regCluster :: "string option"
  regInstanceIdentityDocument :: "string option"
  regInstanceIdentityDocumentSignature :: "string option"
  regTotalResources :: "Resource list"

definition NewRegisterContainerInstanceRequest :: RegisterContainerInstanceRequest where
  "NewRegisterContainerInstanceRequest =
     \<lparr>regCluster = None, regInstanceIdentityDocument = None,
      regInstanceIdentityDocumentSignature = None, regTotalResources = []\<rparr>"

record SubmitTaskStateChangeRequest =
  tscTask :: "string option"
  tscStatus :: "string option"
  tscCluster :: "string option"

definition NewSubmitTaskStateChangeRequest :: SubmitTaskStateChangeRequest where
  "NewSubmitTaskStateChangeRequest = \<lparr>tscTask = None, tscStatus = None, tscCluster = None\<rparr>"

text \<open>A network binding as it is read when the request is serialised.\<close>

record NetworkBinding =
  nbBindIP :: "string option"
  nbHostPort :: "int32 option"
  nbContainerPort :: "int32 option"

record SubmitContainerStateChangeRequest =
  cscTask :: "string option"
  cscContainerName :: "string option"
  cscStatus :: "string option"
  cscCluster :: "string option"
  cscExitCode :: "int32 option"
  cscNetworkBindings :: "NetworkBinding list"

definition NewSubmitContainerStateChangeRequest :: SubmitContainerStateChangeRequest where
  "NewSubmitContainerStateChangeRequest =
     \<lparr>cscTask = None, cscContainerName = None, cscStatus = None, cscCluster = None,
      cscExitCode = None, cscNetworkBindings = []\<rparr>"

text \<open>One element of a DescribeClusters response, with the three fields the file reads.\<close>

record ClusterDescription =
  cdClusterName :: string
  cdClusterArn :: string
  cdStatus :: string

subsection \<open>Collaborators, the trace and the state of a run\<close>

text \<open>
  \<open>TaskStatusNone\<close> and the \<open>String\<close> methods of \<open>TaskStatus\<close> and \<open>ContainerStatus\<close>
  are declared outside api_client.go, as is \<open>utils.Uint16SliceToStringSlice\<close>: they
  are parameters, and the theorems hold for every choice of them. \<open>ReadResource\<close> and
  \<open>ReadMemInfo\<close> return a value and an error side by side, as the Go functions do;
  \<open>ReadMemInfo\<close> returns a pointer, which may be nil.
\<close>

record ('w, 'cs, 'ts) deps =
  TaskStatusNone :: 'ts
  TaskStatus_String :: "'ts \<Rightarrow> string"
  ContainerStatus_String :: "'cs \<Rightarrow> string"
  Uint16SliceToStringSlice :: "uint16 list \<Rightarrow> string list"
  ReadResource :: "metadata_resource \<Rightarrow> 'w \<Rightarrow> (string \<times> error option) \<times> 'w"
  ReadMemInfo :: "'w \<Rightarrow> (MemInfo option \<times> error option) \<times> 'w"
  NumCPU :: "'w \<Rightarrow> int64"
  dialer_TLS :: "string \<Rightarrow> uint16 \<Rightarrow> bool \<Rightarrow> 'w \<Rightarrow> error option \<times> 'w"
  svc_CreateCluster :: "string \<Rightarrow> 'w \<Rightarrow> (error + string) \<times> 'w"
  svc_DescribeClusters :: "string list \<Rightarrow> 'w \<Rightarrow> (error + ClusterDescription list) \<times> 'w"
  svc_RegisterContainerInstance ::
    "RegisterContainerInstanceRequest \<Rightarrow> 'w \<Rightarrow> (error + string) \<times> 'w"
  svc_SubmitTaskStateChange :: "SubmitTaskStateChangeRequest \<Rightarrow> 'w \<Rightarrow> error option \<times> 'w"
  svc_SubmitContainerStateChange ::
    "SubmitContainerStateChangeRequest \<Rightarrow> 'w \<Rightarrow> error option \<times> 'w"

datatype event =
    Call_ReadResource metadata_resource
  | Call_TLS string uint16 bool
  | Call_CreateCluster string
  | Call_DescribeClusters "string list"
  | Call_RegisterContainerInstance RegisterContainerInstanceRequest
  | Call_SubmitTaskStateChange SubmitTaskStateChangeRequest
  | Call_SubmitContainerStateChange SubmitContainerStateChangeRequest

text \<open>
  The client (\<open>ApiECSClient\<close>: the configuration it points to and
  \<open>insecureSkipVerify\<close>), the outside world and the calls made so far.
\<close>

record 'w state =
  config :: Config
  insecureSkipVerify :: bool
  world :: 'w
  trace :: "event list"

text \<open>The calls of one kind in a trace, in order.\<close>

fun createClusterCalls :: "event list \<Rightarrow> string list" where
  "createClusterCalls [] = []"
| "createClusterCalls (Call_CreateCluster n # evs) = n # createClusterCalls evs"
| "createClusterCalls (ev # evs) = createClusterCalls evs"

fun describeClustersCalls :: "event list \<Rightarrow> string list list" where
  "describeClustersCalls [] = []"
| "describeClustersCalls (Call_DescribeClusters ns # evs) = ns # describeClustersCalls evs"
| "describeClustersCalls (ev # evs) = describeClustersCalls evs"

fun registerCalls :: "event list \<Rightarrow> RegisterContainerInstanceRequest list" where
  "registerCalls [] = []"
| "registerCalls (Call_RegisterContainerInstance r # evs) = r # registerCalls evs"
| "registerCalls (ev # evs) = registerCalls evs"

subsection \<open>serviceClient, CreateCluster and describeCluster\<close>

text \<open>
  \<open>serviceClient\<close> (lines 60 to 76) builds a signer and a codec and dials; only the dial
  can fail. \<open>None\<close> stands for the client it returns with a nil error.
\<close>

definition serviceClient :: "('w, 'cs, 'ts) deps \<Rightarrow> 'w state \<Rightarrow> error option \<times> 'w state" where
  "serviceClient env s =
     (let cfg = config s;
          (err, w) = dialer_TLS env (APIEndpoint cfg) (APIPort cfg) (insecureSkipVerify s) (world s);
          s1 = s\<lparr>world := w,
                 trace := trace s @ [Call_TLS (APIEndpoint cfg) (APIPort cfg) (insecureSkipVerify s)]\<rparr>
      in (err, s1))"

definition CreateCluster ::
  "('w, 'cs, 'ts) deps \<Rightarrow> string \<Rightarrow> 'w state \<Rightarrow> (error + string) \<times> 'w state" where
  "CreateCluster env clusterName s =
     (case serviceClient env s of
        (Some err, s1) \<Rightarrow> (Inl err, s1)
      | (None, s1) \<Rightarrow>
          (let (resp, w) = svc_CreateCluster env clusterName (world s1);
               s2 = s1\<lparr>world := w, trace := trace s1 @ [Call_CreateCluster clusterName]\<rparr>
           in case resp of
                Inl err \<Rightarrow> (Inl err, s2)
              | Inr arn \<Rightarrow> (Inr arn, s2)))"

text \<open>
  The loop of lines 135 to 142 over the clusters of the response. The named results
  \<open>clusterArn\<close> and \<open>clusterStatus\<close> are still empty when no cluster has the name.
\<close>

fun firstNamed :: "string \<Rightarrow> ClusterDescription list \<Rightarrow> string \<times> string" where
  "firstNamed clusterName [] = ('''', '''')"
| "firstNamed clusterName (cluster # clusters) =
     (if cdClusterName cluster = clusterName then (cdClusterArn cluster, cdStatus cluster)
      else firstNamed clusterName clusters)"

definition describeCluster ::
  "('w, 'cs, 'ts) deps \<Rightarrow> string \<Rightarrow> 'w state \<Rightarrow> (error + string \<times> string) \<times> 'w state" where
  "describeCluster env clusterName s =
     (let clusterNames = [clusterName] in
      case serviceClient env s of
        (Some err, s1) \<Rightarrow> (Inl err, s1)
      | (None, s1) \<Rightarrow>
          (let (resp, w) = svc_DescribeClusters env clusterNames (world s1);
               s2 = s1\<lparr>world := w, trace := trace s1 @ [Call_DescribeClusters clusterNames]\<rparr>
           in case resp of
                Inl err \<Rightarrow> (Inl err, s2)
              | Inr clusters \<Rightarrow> (Inr (firstNamed clusterName clusters), s2)))"

subsection \<open>Registration\<close>

text \<open>
  \<open>getCpuAndMemory\<close> (lines 86 to 96). Line 88 reads \<open>memInfo.MemTotal\<close> before the
  error is looked at, so a nil \<open>memInfo\<close> panics. The division is Go's signed division
  on \<open>int64\<close>, the conversions to \<open>int32\<close> keep the low 32 bits.
\<close>

definition getCpuAndMemory ::
  "('w, 'cs, 'ts) deps \<Rightarrow> 'w state \<Rightarrow> (int32 \<times> int32) outcome \<times> 'w state" where
  "getCpuAndMemory env s =
     (let ((memInfo, err), w) = ReadMemInfo env (world s);
          s1 = s\<lparr>world := w\<rparr>
      in case memInfo of
           None \<Rightarrow> (Panic, s1)
         | Some mi \<Rightarrow>
             (let mem = (word_of_int (sint (MemTotal mi) sdiv 1024 sdiv 1024) :: int32);
                  mem = (if err \<noteq> None then 0 else mem);
                  cpu = NumCPU env w * 1024
              in (Return (ucast cpu, mem), s1)))"

text \<open>\<open>registerContainerInstance\<close> (lines 179 to 240): one registration attempt.\<close>

definition registerContainerInstance ::
  "('w, 'cs, 'ts) deps \<Rightarrow> string \<Rightarrow> 'w state \<Rightarrow> (error + string) outcome \<times> 'w state" where
  "registerContainerInstance env clusterArn s =
     (let svcRequest = NewRegisterContainerInstanceRequest\<lparr>regCluster := Some clusterArn\<rparr>;
          ((instanceIdentityDoc, err), w1) =
             ReadResource env INSTANCE_IDENTITY_DOCUMENT_RESOURCE (world s);
          s1 = s\<lparr>world := w1,
                 trace := trace s @ [Call_ReadResource INSTANCE_IDENTITY_DOCUMENT_RESOURCE]\<rparr>;
          iidRetrieved = (err = None);
          instanceIdentityDoc = (if err \<noteq> None then [] else instanceIdentityDoc);
          svcRequest = svcRequest\<lparr>regInstanceIdentityDocument := Some instanceIdentityDoc\<rparr>;
          (instanceIdentitySignature, s2) =
             (if iidRetrieved then
                (let ((signature, err), w2) =
                        ReadResource env INSTANCE_IDENTITY_DOCUMENT_SIGNATURE_RESOURCE (world s1)
                 in (signature,
                     s1\<lparr>world := w2,
                        trace := trace s1 @
                          [Call_ReadResource INSTANCE_IDENTITY_DOCUMENT_SIGNATURE_RESOURCE]\<rparr>))
              else ([], s1));
          svcRequest =
             svcRequest\<lparr>regInstanceIdentityDocumentSignature := Some instanceIdentitySignature\<rparr>
      in case getCpuAndMemory env s2 of
           (Panic, s3) \<Rightarrow> (Panic, s3)
         | (Return (cpu, mem), s3) \<Rightarrow>
             (let integerStr = ''INTEGER'';
                  cpuResource = NewResource\<lparr>resName := Some ''CPU'',
                    resType := Some integerStr, resIntegerValue := Some cpu\<rparr>;
                  memResource = NewResource\<lparr>resName := Some ''MEMORY'',
                    resType := Some integerStr, resIntegerValue := Some mem\<rparr>;
                  portResource = NewResource\<lparr>resName := Some ''PORTS'',
                    resType := Some ''STRINGSET'',
                    resStringSetValue :=
                      Some (Uint16SliceToStringSlice env (ReservedPorts (config s3)))\<rparr>;
                  resources = [cpuResource, memResource, portResource];
                  svcRequest = svcRequest\<lparr>regTotalResources := resources\<rparr>
              in case serviceClient env s3 of
                   (Some err, s4) \<Rightarrow> (Return (Inl err), s4)
                 | (None, s4) \<Rightarrow>
                     (let (resp, w5) = svc_RegisterContainerInstance env svcRequest (world s4);
                          s5 = s4\<lparr>world := w5,
                                 trace := trace s4 @ [Call_RegisterContainerInstance svcRequest]\<rparr>
                      in case resp of
                           Inl err \<Rightarrow> (Return (Inl err), s5)
                         | Inr containerInstanceArn \<Rightarrow> (Return (Inr containerInstanceArn), s5))))"

text \<open>
  The deferred function of lines 150 to 153. Its closure holds the variable
  \<open>clusterArn\<close> of line 146; it runs on every way out of the block, a panic included.
\<close>

definition deferred :: "string \<Rightarrow> 'w state \<Rightarrow> 'w state" where
  "deferred clusterArn s = s\<lparr>config := (config s)\<lparr>ClusterArn := clusterArn\<rparr>\<rparr>"

text \<open>
  \<open>RegisterContainerInstance\<close> (lines 145 to 177). The short variable declaration of
  line 161 stands in the block of the \<open>if\<close>, where \<open>err\<close> is already declared and
  \<open>clusterArn\<close> is not: it declares a second variable \<open>clusterArn\<close>, written
  \<open>clusterArn'\<close> here, which lines 168, 171 read and line 171 assigns. The deferred
  function and line 176 read the variable of line 146.
\<close>

definition RegisterContainerInstance ::
  "('w, 'cs, 'ts) deps \<Rightarrow> 'w state \<Rightarrow> (error + string) outcome \<times> 'w state" where
  "RegisterContainerInstance env s =
     (let clusterArn = ClusterArn (config s) in
      if clusterArn = [] then
        (let clusterArn = DEFAULT_CLUSTER_NAME in
         case registerContainerInstance env clusterArn s of
           (Panic, s1) \<Rightarrow> (Panic, deferred clusterArn s1)
         | (Return (Inr containerInstanceArn), s1) \<Rightarrow>
             (Return (Inr containerInstanceArn), deferred clusterArn s1)
         | (Return (Inl err), s1) \<Rightarrow>
             (case describeCluster env clusterArn s1 of
                (Inl err, s2) \<Rightarrow> (Return (Inl err), deferred clusterArn s2)
              | (Inr (clusterArn', clusterStatus), s2) \<Rightarrow>
                  if clusterStatus \<noteq> [] \<and> clusterStatus \<noteq> ''ACTIVE'' then
                    (let message = ''Cluster is not available for registration''
                     in (Return (Inl (ErrorsNew message)), deferred clusterArn s2))
                  else
                    (case CreateCluster env clusterArn' s2 of
                       (Inl err, s3) \<Rightarrow> (Return (Inl err), deferred clusterArn s3)
                     | (Inr clusterArn', s3) \<Rightarrow>
                         (case registerContainerInstance env clusterArn s3 of
                            (r, s4) \<Rightarrow> (r, deferred clusterArn s4)))))
      else registerContainerInstance env clusterArn s)"

subsection \<open>State changes\<close>

text \<open>
  Lines 249 to 251 and 280 to 282 are the same statement: the text \<open>DEAD\<close> is sent as
  \<open>STOPPED\<close>.
\<close>

definition reported :: "string \<Rightarrow> string" where
  "reported stat = (if stat = ''DEAD'' then ''STOPPED'' else stat)"

definition SubmitTaskStateChange ::
  "('w, 'cs, 'ts) deps \<Rightarrow> ('cs, 'ts, 'z) ContainerStateChange_scheme \<Rightarrow> 'w state
     \<Rightarrow> StateChangeError option \<times> 'w state" where
  "SubmitTaskStateChange env change s =
     (if TaskStatus change = TaskStatusNone env then
        (Some (NewStateChangeError
           (ErrorsNew ''SubmitTaskStateChange called with an invalid change'')), s)
      else
        (let stat = reported (TaskStatus_String env (TaskStatus change)) in
         if stat \<noteq> ''STOPPED'' \<and> stat \<noteq> ''RUNNING'' then (None, s)
         else
           (let req = NewSubmitTaskStateChangeRequest\<lparr>tscTask := Some (TaskArn change),
                  tscStatus := Some stat, tscCluster := Some (ClusterArn (config s))\<rparr>
            in case serviceClient env s of
                 (Some err, s1) \<Rightarrow> (Some (NewStateChangeError err), s1)
               | (None, s1) \<Rightarrow>
                   (let (err, w) = svc_SubmitTaskStateChange env req (world s1);
                        s2 = s1\<lparr>world := w,
                               trace := trace s1 @ [Call_SubmitTaskStateChange req]\<rparr>
                    in case err of
                         Some e \<Rightarrow> (Some (NewStateChangeError e), s2)
                       | None \<Rightarrow> (None, s2)))))"

text \<open>
  The loop of lines 294 to 302 takes addresses, so its variables live in a store. The
  range clause declares one variable \<open>binding\<close> for the whole loop (the rule of the
  language until Go 1.22; the file is from 2015); each iteration copies the next
  element into it. \<open>hostPort\<close> and \<open>containerPort\<close> are declared in the body, so
  each iteration has fresh ones. A setter stores the pointer it is given: a network
  binding object holds three pointers, read when the request is serialised.
\<close>

record store =
  strCell :: "addr \<Rightarrow> string"
  i32Cell :: "addr \<Rightarrow> int32"
  nextAddr :: addr

definition emptyStore :: store where
  "emptyStore = \<lparr>strCell = (\<lambda>a. []), i32Cell = (\<lambda>a. 0), nextAddr = 0\<rparr>"

definition newString :: "string \<Rightarrow> store \<Rightarrow> addr \<times> store" where
  "newString v h =
     (nextAddr h, h\<lparr>strCell := (strCell h)(nextAddr h := v), nextAddr := Suc (nextAddr h)\<rparr>)"

definition newInt32 :: "int32 \<Rightarrow> store \<Rightarrow> addr \<times> store" where
  "newInt32 v h =
     (nextAddr h, h\<lparr>i32Cell := (i32Cell h)(nextAddr h := v), nextAddr := Suc (nextAddr h)\<rparr>)"

record NetworkBindingObject =
  pBindIP :: "addr option"
  pHostPort :: "addr option"
  pContainerPort :: "addr option"

definition NewNetworkBinding :: NetworkBindingObject where
  "NewNetworkBinding = \<lparr>pBindIP = None, pHostPort = None, pContainerPort = None\<rparr>"

text \<open>
  \<open>rangePortBindings bindingIp bs i nbs h\<close> runs the iterations for the elements \<open>bs\<close>
  from index \<open>i\<close> on; \<open>bindingIp\<close> is the address of \<open>binding.BindIp\<close>.
\<close>

fun rangePortBindings ::
  "addr \<Rightarrow> PortBinding list \<Rightarrow> nat \<Rightarrow> NetworkBindingObject list \<Rightarrow> store
     \<Rightarrow> NetworkBindingObject list \<times> store" where
  "rangePortBindings bindingIp [] i networkBindings h = (networkBindings, h)"
| "rangePortBindings bindingIp (b # bs) i networkBindings h =
     (let h0 = h\<lparr>strCell := (strCell h)(bindingIp := BindIp b)\<rparr>;
          aBinding = NewNetworkBinding\<lparr>pBindIP := Some bindingIp\<rparr>;
          (hostPort, h1) = newInt32 (ucast (HostPort b)) h0;
          aBinding = aBinding\<lparr>pHostPort := Some hostPort\<rparr>;
          (containerPort, h2) = newInt32 (ucast (ContainerPort b)) h1;
          aBinding = aBinding\<lparr>pContainerPort := Some containerPort\<rparr>
      in rangePortBindings bindingIp bs (Suc i) (networkBindings[i := aBinding]) h2)"

text \<open>What a network binding object holds when the request is serialised.\<close>

definition serialised :: "store \<Rightarrow> NetworkBindingObject \<Rightarrow> NetworkBinding" where
  "serialised h nb =
     \<lparr>nbBindIP = map_option (strCell h) (pBindIP nb),
      nbHostPort = map_option (i32Cell h) (pHostPort nb),
      nbContainerPort = map_option (i32Cell h) (pContainerPort nb)\<rparr>"

text \<open>
  Lines 293 to 303. \<open>make\<close> gives a slice of the length of the port bindings, every
  slot of which the loop overwrites.
\<close>

definition networkBindingsOf :: "PortBinding list \<Rightarrow> NetworkBinding list" where
  "networkBindingsOf portBindings =
     (let (bindingIp, h) = newString [] emptyStore;
          networkBindings = replicate (length portBindings) NewNetworkBinding;
          (networkBindings, h) = rangePortBindings bindingIp portBindings 0 networkBindings h
      in map (serialised h) networkBindings)"

definition SubmitContainerStateChange ::
  "('w, 'cs, 'ts) deps \<Rightarrow> ('cs, 'ts, 'z) ContainerStateChange_scheme \<Rightarrow> 'w state
     \<Rightarrow> StateChangeError option \<times> 'w state" where
  "SubmitContainerStateChange env change s =
     (let req = NewSubmitContainerStateChangeRequest\<lparr>cscTask := Some (TaskArn change),
            cscContainerName := Some (ContainerName change)\<rparr>;
          stat = reported (ContainerStatus_String env (Status change))
      in if stat \<noteq> ''STOPPED'' \<and> stat \<noteq> ''RUNNING'' then (None, s)
         else
           (let req = req\<lparr>cscStatus := Some stat, cscCluster := Some (ClusterArn (config s))\<rparr>;
                req = (case ExitCode change of
                         None \<Rightarrow> req
                       | Some exitCode \<Rightarrow> req\<lparr>cscExitCode := Some (ucast exitCode)\<rparr>);
                req = req\<lparr>cscNetworkBindings := networkBindingsOf (PortBindings change)\<rparr>
            in case serviceClient env s of
                 (Some err, s1) \<Rightarrow> (Some (NewStateChangeError err), s1)
               | (None, s1) \<Rightarrow>
                   (let (err, w) = svc_SubmitContainerStateChange env req (world s1);
                        s2 = s1\<lparr>world := w,
                               trace := trace s1 @ [Call_SubmitContainerStateChange req]\<rparr>
                    in case err of
                         Some e \<Rightarrow> (Some (NewStateChangeError e), s2)
                       | None \<Rightarrow> (None, s2))))"

subsection \<open>A simulated service for concrete runs\<close>

text \<open>
  Modelled from the spec: the enumerations \<open>TaskStatus\<close> and \<open>ContainerStatus\<close> are
  declared outside api_client.go. Section 3 of the specification names an unset state,
  a running state, a dead or stopped state and other internal states; the unset state
  of a task is \<open>TaskStatusNone\<close>. The concrete runs below use one enumeration for both.
\<close>

datatype lifecycle = StatusNone | StatusCreated | StatusRunning | StatusStopped | StatusDead

fun lifecycle_String :: "lifecycle \<Rightarrow> string" where
  "lifecycle_String StatusNone = ''NONE''"
| "lifecycle_String StatusCreated = ''CREATED''"
| "lifecycle_String StatusRunning = ''RUNNING''"
| "lifecycle_String StatusStopped = ''STOPPED''"
| "lifecycle_String StatusDead = ''DEAD''"

text \<open>
  The world of the simulated service is the number of RegisterContainerInstance calls
  that will still fail. DescribeClusters answers with \<open>clusters\<close>, CreateCluster with
  \<open>created\<close>; the metadata reads, the probes, the dial and the submissions succeed.
\<close>

definition simulated ::
  "ClusterDescription list \<Rightarrow> error + string \<Rightarrow> (nat, lifecycle, lifecycle) deps" where
  "simulated clusters created =
     \<lparr>TaskStatusNone = StatusNone,
      TaskStatus_String = lifecycle_String,
      ContainerStatus_String = lifecycle_String,
      Uint16SliceToStringSlice = map (\<lambda>p. replicate (unat p) (CHR ''|'')),
      ReadResource = (\<lambda>r w.
        ((if r = INSTANCE_IDENTITY_DOCUMENT_RESOURCE then ''document'' else ''signature'', None), w)),
      ReadMemInfo = (\<lambda>w. ((Some \<lparr>MemTotal = 4294967296\<rparr>, None), w)),
      NumCPU = (\<lambda>w. 2),
      dialer_TLS = (\<lambda>host port insecure w. (None, w)),
      svc_CreateCluster = (\<lambda>clusterName w. (created, w)),
      svc_DescribeClusters = (\<lambda>clusterNames w. (Inr clusters, w)),
      svc_RegisterContainerInstance = (\<lambda>req w.
        if w = 0 then (Inr ''arn:instance'', 0) else (Inl (Foreign ''ClusterNotFound''), w - 1)),
      svc_SubmitTaskStateChange = (\<lambda>req w. (None, w)),
      svc_SubmitContainerStateChange = (\<lambda>req w. (None, w))\<rparr>"

text \<open>
  A client configured for the cluster \<open>clusterArn\<close>, in front of a service whose next
  \<open>failures\<close> registrations fail, with no call made yet.
\<close>

definition client :: "string \<Rightarrow> nat \<Rightarrow> nat state" where
  "client clusterArn failures =
     \<lparr>config = \<lparr>ClusterArn = clusterArn, AWSRegion = ''us-east-1'',
                 APIEndpoint = ''ecs.us-east-1.amazonaws.com'', APIPort = 443,
                 ReservedPorts = []\<rparr>,
      insecureSkipVerify = False, world = failures, trace = []\<rparr>"

definition activeDefault :: "ClusterDescription list" where
  "activeDefault =
     [\<lparr>cdClusterName = ''default'', cdClusterArn = ''arn:cluster/default'', cdStatus = ''ACTIVE''\<rparr>]"

definition inactiveDefault :: "ClusterDescription list" where
  "inactiveDefault =
     [\<lparr>cdClusterName = ''default'', cdClusterArn = ''arn:cluster/default'', cdStatus = ''INACTIVE''\<rparr>]"

definition twoBindings :: "PortBinding list" where
  "twoBindings =
     [\<lparr>ContainerPort = 80, HostPort = 8080, BindIp = ''10.0.0.1''\<rparr>,
      \<lparr>ContainerPort = 443, HostPort = 8443, BindIp = ''10.0.0.2''\<rparr>]"

definition aChange :: "lifecycle \<Rightarrow> lifecycle \<Rightarrow> (lifecycle, lifecycle) ContainerStateChange" where
  "aChange containerStatus taskStatus =
     \<lparr>TaskArn = ''arn:task/1'', ContainerName = ''web'', Status = containerStatus,
      ExitCode = None, PortBindings = twoBindings, TaskStatus = taskStatus\<rparr>"

subsection \<open>Properties of requests\<close>

text \<open>
  The resources of a registration request are named CPU, MEMORY and PORTS and have the
  kinds INTEGER, INTEGER and STRINGSET: three descriptors, no more.
\<close>

definition threeResources :: "RegisterContainerInstanceRequest \<Rightarrow> bool" where
  "threeResources req \<longleftrightarrow>
     map resName (regTotalResources req) = [Some ''CPU'', Some ''MEMORY'', Some ''PORTS''] \<and>
     map resType (regTotalResources req) = [Some ''INTEGER'', Some ''INTEGER'', Some ''STRINGSET'']"


subsection \<open>The loop over the port bindings, unrolled\<close>

text \<open>
  Two functions that describe a run of the loop of lines 294 to 302 without running it:
  the store after the iterations for \<open>bs\<close>, and the objects these iterations build
  when the next free address is \<open>n\<close>. \<open>rangePortBindings_run\<close> below proves that the
  loop computes exactly these.
\<close>

fun storeAfter :: "addr \<Rightarrow> PortBinding list \<Rightarrow> store \<Rightarrow> store" where
  "storeAfter bindingIp [] h = h"
| "storeAfter bindingIp (b # bs) h =
     storeAfter bindingIp bs
       (h\<lparr>strCell := (strCell h)(bindingIp := BindIp b),
          i32Cell := (i32Cell h)(nextAddr h := ucast (HostPort b),
                                 Suc (nextAddr h) := ucast (ContainerPort b)),
          nextAddr := Suc (Suc (nextAddr h))\<rparr>)"

fun allocated :: "addr \<Rightarrow> addr \<Rightarrow> PortBinding list \<Rightarrow> NetworkBindingObject list" where
  "allocated bindingIp n [] = []"
| "allocated bindingIp n (b # bs) =
     \<lparr>pBindIP = Some bindingIp, pHostPort = Some n, pContainerPort = Some (Suc n)\<rparr> #
     allocated bindingIp (Suc (Suc n)) bs"

section \<open>What each function adds to the state\<close>

lemma createClusterCalls_append [simp]:
  "createClusterCalls (xs @ ys) = createClusterCalls xs @ createClusterCalls ys"
  by (induction xs rule: createClusterCalls.induct) simp_all

lemma describeClustersCalls_append [simp]:
  "describeClustersCalls (xs @ ys) = describeClustersCalls xs @ describeClustersCalls ys"
  by (induction xs rule: describeClustersCalls.induct) simp_all

lemma registerCalls_append [simp]:
  "registerCalls (xs @ ys) = registerCalls xs @ registerCalls ys"
  by (induction xs rule: registerCalls.induct) simp_all

lemma serviceClient_effect:
  assumes "serviceClient env s = (r, s')"
  shows "config s' = config s \<and> insecureSkipVerify s' = insecureSkipVerify s \<and>
         trace s' = trace s @ [Call_TLS (APIEndpoint (config s)) (APIPort (config s)) (insecureSkipVerify s)]"
  using assms by (auto simp: serviceClient_def Let_def split: prod.splits)

lemma getCpuAndMemory_effect:
  assumes "getCpuAndMemory env s = (r, s')"
  shows "config s' = config s \<and> insecureSkipVerify s' = insecureSkipVerify s \<and> trace s' = trace s"
  using assms by (auto simp: getCpuAndMemory_def Let_def split: prod.splits option.splits)

lemma CreateCluster_effect:
  assumes "CreateCluster env n s = (r, s')"
  shows "config s' = config s \<and> insecureSkipVerify s' = insecureSkipVerify s \<and>
         (\<exists>evs. trace s' = trace s @ evs \<and> describeClustersCalls evs = [] \<and> registerCalls evs = [] \<and>
            (createClusterCalls evs = [n] \<or> createClusterCalls evs = [] \<and> isl r))"
  using assms
  by (auto simp: CreateCluster_def Let_def split: prod.splits option.splits sum.splits
      dest!: serviceClient_effect)

lemma describeCluster_effect:
  assumes "describeCluster env n s = (r, s')"
  shows "config s' = config s \<and> insecureSkipVerify s' = insecureSkipVerify s \<and>
         (\<exists>evs. trace s' = trace s @ evs \<and> createClusterCalls evs = [] \<and> registerCalls evs = [] \<and>
            (describeClustersCalls evs = [[n]] \<or> describeClustersCalls evs = [] \<and> isl r))"
  using assms
  by (auto simp: describeCluster_def Let_def split: prod.splits option.splits sum.splits
      dest!: serviceClient_effect)

lemma registerContainerInstance_effect:
  assumes "registerContainerInstance env c s = (r, s')"
  shows "config s' = config s \<and> insecureSkipVerify s' = insecureSkipVerify s \<and>
         (\<exists>evs. trace s' = trace s @ evs \<and> createClusterCalls evs = [] \<and>
            describeClustersCalls evs = [] \<and> length (registerCalls evs) \<le> 1 \<and>
            (\<forall>req \<in> set (registerCalls evs). regCluster req = Some c \<and> threeResources req) \<and>
            (\<forall>a. r = Return (Inr a) \<longrightarrow> length (registerCalls evs) = 1))"
  using assms
  by (auto simp: registerContainerInstance_def Let_def threeResources_def NewResource_def
        NewRegisterContainerInstanceRequest_def
      split: prod.splits option.splits sum.splits outcome.splits if_splits
      dest!: serviceClient_effect getCpuAndMemory_effect)


lemma deferred_simps [simp]:
  "config (deferred c s) = (config s)\<lparr>ClusterArn := c\<rparr>"
  "trace (deferred c s) = trace s"
  "world (deferred c s) = world s"
  "insecureSkipVerify (deferred c s) = insecureSkipVerify s"
  by (simp_all add: deferred_def)

lemma client_simps [simp]:
  "ClusterArn (config (client c n)) = c"
  "ReservedPorts (config (client c n)) = []"
  "world (client c n) = n"
  "trace (client c n) = []"
  by (simp_all add: client_def)

text \<open>The definitions a concrete run unfolds.\<close>

lemmas run_defs =
  RegisterContainerInstance_def registerContainerInstance_def getCpuAndMemory_def
  serviceClient_def describeCluster_def CreateCluster_def deferred_def
  SubmitTaskStateChange_def SubmitContainerStateChange_def reported_def
  NewResource_def NewRegisterContainerInstanceRequest_def NewSubmitTaskStateChangeRequest_def
  NewSubmitContainerStateChangeRequest_def DEFAULT_CLUSTER_NAME_def
  simulated_def client_def activeDefault_def inactiveDefault_def aChange_def Let_def

lemma registerContainerInstance_config:
  "registerContainerInstance env c s = (r, s') \<Longrightarrow> config s' = config s"
  by (simp add: registerContainerInstance_effect)

lemma describeCluster_config:
  "describeCluster env n s = (r, s') \<Longrightarrow> config s' = config s"
  by (simp add: describeCluster_effect)

lemma CreateCluster_config:
  "CreateCluster env n s = (r, s') \<Longrightarrow> config s' = config s"
  by (simp add: CreateCluster_effect)


lemma RegisterContainerInstance_default_effect:
  assumes empty: "ClusterArn (config s) = []"
  shows "\<exists>evs. trace (snd (RegisterContainerInstance env s)) = trace s @ evs \<and>
           length (createClusterCalls evs) \<le> 1 \<and>
           length (describeClustersCalls evs) \<le> 1 \<and>
           (\<forall>req \<in> set (registerCalls evs).
              regCluster req = Some DEFAULT_CLUSTER_NAME \<and> threeResources req)"
    (is "\<exists>evs. ?run evs")
proof -
  define d where "d = DEFAULT_CLUSTER_NAME"
  obtain r1 s1 where a1: "registerContainerInstance env d s = (r1, s1)"
    by (cases "registerContainerInstance env d s")
  from registerContainerInstance_effect [OF a1] obtain evs1 where
    e1: "trace s1 = trace s @ evs1" "createClusterCalls evs1 = []"
      "describeClustersCalls evs1 = []"
      "\<forall>req \<in> set (registerCalls evs1). regCluster req = Some d \<and> threeResources req"
    by blast
  obtain r2 s2 where a2: "describeCluster env d s1 = (r2, s2)"
    by (cases "describeCluster env d s1")
  from describeCluster_effect [OF a2] obtain evs2 where
    e2: "trace s2 = trace s1 @ evs2" "createClusterCalls evs2 = []" "registerCalls evs2 = []"
      "length (describeClustersCalls evs2) \<le> 1"
    by auto
  show ?thesis
  proof (cases "\<exists>e. r1 = Return (Inl e)")
    case False
    then have "snd (RegisterContainerInstance env s) = deferred d s1"
      using empty a1
      by (auto simp: RegisterContainerInstance_def d_def split: outcome.splits sum.splits)
    then have "?run evs1" using e1 by (simp add: d_def)
    then show ?thesis ..
  next
    case True
    then obtain e where r1: "r1 = Return (Inl e)" ..
    show ?thesis
    proof (cases r2)
      case (Inl err)
      then have "snd (RegisterContainerInstance env s) = deferred d s2"
        using empty a1 a2 r1 by (simp add: RegisterContainerInstance_def d_def)
      then have "?run (evs1 @ evs2)" using e1 e2 by (simp add: d_def)
      then show ?thesis ..
    next
      case (Inr found)
      obtain arn status where found: "found = (arn, status)" by (cases found)
      show ?thesis
      proof (cases "status \<noteq> [] \<and> status \<noteq> ''ACTIVE''")
        case True
        then have "snd (RegisterContainerInstance env s) = deferred d s2"
          using empty a1 a2 r1 Inr found by (simp add: RegisterContainerInstance_def d_def)
        then have "?run (evs1 @ evs2)" using e1 e2 by (simp add: d_def)
        then show ?thesis ..
      next
        case False
        obtain r3 s3 where a3: "CreateCluster env arn s2 = (r3, s3)"
          by (cases "CreateCluster env arn s2")
        from CreateCluster_effect [OF a3] obtain evs3 where
          e3: "trace s3 = trace s2 @ evs3" "describeClustersCalls evs3 = []"
            "registerCalls evs3 = []" "length (createClusterCalls evs3) \<le> 1"
          by auto
        obtain r4 s4 where a4: "registerContainerInstance env d s3 = (r4, s4)"
          by (cases "registerContainerInstance env d s3")
        from registerContainerInstance_effect [OF a4] obtain evs4 where
          e4: "trace s4 = trace s3 @ evs4" "createClusterCalls evs4 = []"
            "describeClustersCalls evs4 = []"
            "\<forall>req \<in> set (registerCalls evs4). regCluster req = Some d \<and> threeResources req"
          by blast
        show ?thesis
        proof (cases r3)
          case (Inl err)
          then have "snd (RegisterContainerInstance env s) = deferred d s3"
            using empty a1 a2 a3 r1 Inr found False
            by (auto simp: RegisterContainerInstance_def d_def)
          then have "?run (evs1 @ evs2 @ evs3)" using e1 e2 e3 by (simp add: d_def)
          then show ?thesis ..
        next
          case (Inr a)
          then have "snd (RegisterContainerInstance env s) = deferred d s4"
            using empty a1 a2 a3 a4 r1 \<open>r2 = Inr found\<close> found False
            by (auto simp: RegisterContainerInstance_def d_def)
          then have "?run (evs1 @ evs2 @ evs3 @ evs4)"
            using e1 e2 e3 e4 by (auto simp: d_def)
          then show ?thesis ..
        qed
      qed
    qed
  qed
qed

lemma RegisterContainerInstance_create_branch:
  assumes empty: "ClusterArn (config s) = []"
    and first: "registerContainerInstance env DEFAULT_CLUSTER_NAME s = (Return (Inl e), s1)"
    and described: "describeCluster env DEFAULT_CLUSTER_NAME s1 = (Inr (arn, status), s2)"
    and status: "status = [] \<or> status = ''ACTIVE''"
    and create: "CreateCluster env arn s2 = (created, s3)"
  shows "RegisterContainerInstance env s =
           (case created of
              Inl err \<Rightarrow> (Return (Inl err), deferred DEFAULT_CLUSTER_NAME s3)
            | Inr a \<Rightarrow>
                (fst (registerContainerInstance env DEFAULT_CLUSTER_NAME s3),
                 deferred DEFAULT_CLUSTER_NAME
                   (snd (registerContainerInstance env DEFAULT_CLUSTER_NAME s3)))) \<and>
         (\<exists>evs. trace (snd (RegisterContainerInstance env s)) = trace s @ evs \<and>
            length (createClusterCalls evs) \<le> 1 \<and>
            (\<forall>a. created = Inr a \<longrightarrow> createClusterCalls evs = [arn]))"
proof -
  have run: "RegisterContainerInstance env s =
           (case created of
              Inl err \<Rightarrow> (Return (Inl err), deferred DEFAULT_CLUSTER_NAME s3)
            | Inr a \<Rightarrow>
                (fst (registerContainerInstance env DEFAULT_CLUSTER_NAME s3),
                 deferred DEFAULT_CLUSTER_NAME
                   (snd (registerContainerInstance env DEFAULT_CLUSTER_NAME s3))))"
    using assms
    by (auto simp: RegisterContainerInstance_def split: sum.splits prod.splits)
  from registerContainerInstance_effect [OF first] obtain evs1 where
    e1: "trace s1 = trace s @ evs1" "createClusterCalls evs1 = []" by blast
  from describeCluster_effect [OF described] obtain evs2 where
    e2: "trace s2 = trace s1 @ evs2" "createClusterCalls evs2 = []" by blast
  from CreateCluster_effect [OF create] obtain evs3 where
    e3: "trace s3 = trace s2 @ evs3"
      "createClusterCalls evs3 = [arn] \<or> createClusterCalls evs3 = [] \<and> isl created" by blast
  obtain r4 s4 where a4: "registerContainerInstance env DEFAULT_CLUSTER_NAME s3 = (r4, s4)"
    by (cases "registerContainerInstance env DEFAULT_CLUSTER_NAME s3")
  from registerContainerInstance_effect [OF a4] obtain evs4 where
    e4: "trace s4 = trace s3 @ evs4" "createClusterCalls evs4 = []" by blast
  have calls: "\<exists>evs. trace (snd (RegisterContainerInstance env s)) = trace s @ evs \<and>
            length (createClusterCalls evs) \<le> 1 \<and>
            (\<forall>a. created = Inr a \<longrightarrow> createClusterCalls evs = [arn])"
  proof (cases created)
    case (Inl err)
    then have "trace (snd (RegisterContainerInstance env s)) = trace s @ (evs1 @ evs2 @ evs3)"
      using run e1 e2 e3 by simp
    moreover have "length (createClusterCalls (evs1 @ evs2 @ evs3)) \<le> 1"
      using e1 e2 e3 by auto
    ultimately show ?thesis using Inl by blast
  next
    case (Inr a)
    then have "trace (snd (RegisterContainerInstance env s)) = trace s @ (evs1 @ evs2 @ evs3 @ evs4)"
      using run e1 e2 e3 e4 a4 by simp
    moreover have "createClusterCalls (evs1 @ evs2 @ evs3 @ evs4) = [arn]"
      using e1 e2 e3 e4 Inr by auto
    ultimately show ?thesis by (metis length_Cons list.size(3) order_refl One_nat_def)
  qed
  from run calls show ?thesis by blast
qed

section \<open>Registration with a configured cluster\<close>

text \<open>
  C6. With a non-empty configured cluster identifier, \<open>RegisterContainerInstance\<close> is
  one run of \<open>registerContainerInstance\<close> against that identifier and nothing else: its
  outcome (an error included) and its state are those of that one attempt, the
  configuration is unchanged, no DescribeClusters and no CreateCluster call is made, at
  most one registration request leaves the process (exactly one when the attempt
  succeeds), and it names the configured identifier.
\<close>

theorem C6_configured_cluster_registers_once:
  assumes "ClusterArn (config s) \<noteq> []"
  shows "RegisterContainerInstance env s = registerContainerInstance env (ClusterArn (config s)) s \<and>
         config (snd (RegisterContainerInstance env s)) = config s \<and>
         (\<exists>evs. trace (snd (RegisterContainerInstance env s)) = trace s @ evs \<and>
            describeClustersCalls evs = [] \<and> createClusterCalls evs = [] \<and>
            length (registerCalls evs) \<le> 1 \<and>
            (\<forall>req \<in> set (registerCalls evs). regCluster req = Some (ClusterArn (config s))) \<and>
            (\<forall>a. fst (RegisterContainerInstance env s) = Return (Inr a) \<longrightarrow>
               length (registerCalls evs) = 1))"
proof -
  have eq: "RegisterContainerInstance env s = registerContainerInstance env (ClusterArn (config s)) s"
    using assms by (simp add: RegisterContainerInstance_def)
  obtain r s' where run: "registerContainerInstance env (ClusterArn (config s)) s = (r, s')"
    by (cases "registerContainerInstance env (ClusterArn (config s)) s")
  from registerContainerInstance_effect [OF run] show ?thesis
    unfolding eq run by auto
qed

theorem C6_witness:
  "ClusterArn (config (client ''staging'' 1)) \<noteq> [] \<and>
   RegisterContainerInstance (simulated [] (Inr [])) (client ''staging'' 1) =
     registerContainerInstance (simulated [] (Inr [])) ''staging'' (client ''staging'' 1) \<and>
   fst (RegisterContainerInstance (simulated [] (Inr [])) (client ''staging'' 1)) =
     Return (Inl (Foreign ''ClusterNotFound'')) \<and>
   ClusterArn (config (snd (RegisterContainerInstance (simulated [] (Inr []))
     (client ''staging'' 1)))) = ''staging'' \<and>
   map regCluster (registerCalls (trace (snd (RegisterContainerInstance (simulated [] (Inr []))
     (client ''staging'' 1))))) = [Some ''staging'']"
proof -
  have configured: "ClusterArn (config (client ''staging'' 1)) \<noteq> []"
    by simp
  have run: "fst (RegisterContainerInstance (simulated [] (Inr [])) (client ''staging'' 1)) =
      Return (Inl (Foreign ''ClusterNotFound''))"
    "ClusterArn (config (snd (RegisterContainerInstance (simulated [] (Inr []))
      (client ''staging'' 1)))) = ''staging''"
    "map regCluster (registerCalls (trace (snd (RegisterContainerInstance
      (simulated [] (Inr [])) (client ''staging'' 1))))) = [Some ''staging'']"
    by (simp_all add: run_defs)
  from C6_configured_cluster_registers_once [OF configured, of "simulated [] (Inr [])"]
  show ?thesis using configured run by simp
qed

section \<open>Registration with no configured cluster\<close>

text \<open>
  C9. With an empty configured cluster identifier, whatever the collaborators answer and
  on whichever way the call ends (a failed describe, a failed creation, a failed or a
  panicking registration included), the configuration afterwards is the configuration
  before with the cluster identifier set to the default cluster name. No answer of
  DescribeClusters or CreateCluster enters it.
\<close>

theorem C9_config_is_set_to_default_name:
  assumes "ClusterArn (config s) = []"
  shows "config (snd (RegisterContainerInstance env s)) = (config s)\<lparr>ClusterArn := DEFAULT_CLUSTER_NAME\<rparr>"
  using assms
  by (auto simp: RegisterContainerInstance_def Let_def
      split: prod.splits outcome.splits sum.splits
      dest!: registerContainerInstance_config describeCluster_config CreateCluster_config)

theorem C9_witness:
  "ClusterArn (config (client [] 1)) = [] \<and>
   fst (RegisterContainerInstance (simulated activeDefault (Inr ''arn:created'')) (client [] 1)) =
     Return (Inr ''arn:instance'') \<and>
   createClusterCalls (trace (snd (RegisterContainerInstance
     (simulated activeDefault (Inr ''arn:created'')) (client [] 1)))) = [''arn:cluster/default''] \<and>
   ClusterArn (config (snd (RegisterContainerInstance
     (simulated activeDefault (Inr ''arn:created'')) (client [] 1)))) = ''default''"
proof -
  have empty: "ClusterArn (config (client [] 1)) = []"
    by simp
  have run: "fst (RegisterContainerInstance (simulated activeDefault (Inr ''arn:created''))
      (client [] 1)) = Return (Inr ''arn:instance'')"
    "createClusterCalls (trace (snd (RegisterContainerInstance
      (simulated activeDefault (Inr ''arn:created'')) (client [] 1)))) = [''arn:cluster/default'']"
    by (simp_all add: run_defs)
  from C9_config_is_set_to_default_name [OF empty, of "simulated activeDefault (Inr ''arn:created'')"]
  show ?thesis using empty run by (simp add: DEFAULT_CLUSTER_NAME_def)
qed

text \<open>
  C7. With an empty configured cluster identifier, when the first registration attempt
  fails and the describe reports a status that is neither empty nor \<open>ACTIVE\<close>, the call
  returns the plain error \<open>errors.New("Cluster is not available for registration")\<close>
  (the result type of the registration carries no retry classification), nothing is
  called after the describe, and the run contains no CreateCluster call.
\<close>

theorem C7_inactive_cluster_is_not_recreated:
  assumes "ClusterArn (config s) = []"
    and "registerContainerInstance env DEFAULT_CLUSTER_NAME s = (Return (Inl e), s1)"
    and "describeCluster env DEFAULT_CLUSTER_NAME s1 = (Inr (arn, status), s2)"
    and "status \<noteq> []" and "status \<noteq> ''ACTIVE''"
  shows "fst (RegisterContainerInstance env s) =
           Return (Inl (ErrorsNew ''Cluster is not available for registration'')) \<and>
         trace (snd (RegisterContainerInstance env s)) = trace s2 \<and>
         world (snd (RegisterContainerInstance env s)) = world s2 \<and>
         (\<exists>evs. trace (snd (RegisterContainerInstance env s)) = trace s @ evs \<and>
            createClusterCalls evs = [])"
proof -
  have run: "RegisterContainerInstance env s =
      (Return (Inl (ErrorsNew ''Cluster is not available for registration'')),
       deferred DEFAULT_CLUSTER_NAME s2)"
    using assms by (simp add: RegisterContainerInstance_def Let_def)
  from registerContainerInstance_effect [OF assms(2)] obtain evs1 where
    e1: "trace s1 = trace s @ evs1" "createClusterCalls evs1 = []" by blast
  from describeCluster_effect [OF assms(3)] obtain evs2 where
    e2: "trace s2 = trace s1 @ evs2" "createClusterCalls evs2 = []" by blast
  have "trace s2 = trace s @ (evs1 @ evs2) \<and> createClusterCalls (evs1 @ evs2) = []"
    using e1 e2 by simp
  then show ?thesis unfolding run by (simp del: createClusterCalls_append)
qed

theorem C7_witness:
  "ClusterArn (config (client [] 1)) = [] \<and>
   fst (registerContainerInstance (simulated inactiveDefault (Inr ''arn:created''))
     DEFAULT_CLUSTER_NAME (client [] 1)) = Return (Inl (Foreign ''ClusterNotFound'')) \<and>
   fst (describeCluster (simulated inactiveDefault (Inr ''arn:created'')) DEFAULT_CLUSTER_NAME
     (snd (registerContainerInstance (simulated inactiveDefault (Inr ''arn:created''))
       DEFAULT_CLUSTER_NAME (client [] 1)))) = Inr (''arn:cluster/default'', ''INACTIVE'') \<and>
   fst (RegisterContainerInstance (simulated inactiveDefault (Inr ''arn:created'')) (client [] 1)) =
     Return (Inl (ErrorsNew ''Cluster is not available for registration'')) \<and>
   createClusterCalls (trace (snd (RegisterContainerInstance
     (simulated inactiveDefault (Inr ''arn:created'')) (client [] 1)))) = []"
proof -
  let ?env = "simulated inactiveDefault (Inr ''arn:created'')"
  let ?s1 = "snd (registerContainerInstance ?env DEFAULT_CLUSTER_NAME (client [] 1))"
  let ?s2 = "snd (describeCluster ?env DEFAULT_CLUSTER_NAME ?s1)"
  have empty: "ClusterArn (config (client [] 1)) = []"
    by simp
  have first: "fst (registerContainerInstance ?env DEFAULT_CLUSTER_NAME (client [] 1)) =
      Return (Inl (Foreign ''ClusterNotFound''))"
    by (simp add: run_defs)
  have described: "fst (describeCluster ?env DEFAULT_CLUSTER_NAME ?s1) =
      Inr (''arn:cluster/default'', ''INACTIVE'')"
    by (simp add: run_defs)
  have attempt: "registerContainerInstance ?env DEFAULT_CLUSTER_NAME (client [] 1) =
      (Return (Inl (Foreign ''ClusterNotFound'')), ?s1)"
    using first by (simp add: prod_eq_iff)
  have describe: "describeCluster ?env DEFAULT_CLUSTER_NAME ?s1 =
      (Inr (''arn:cluster/default'', ''INACTIVE''), ?s2)"
    using described by (simp add: prod_eq_iff)
  have status: "''INACTIVE'' \<noteq> []" "''INACTIVE'' \<noteq> ''ACTIVE''"
    by simp_all
  from C7_inactive_cluster_is_not_recreated [OF empty attempt describe status]
  show ?thesis using empty first described by auto
qed

text \<open>
  C5. With an empty configured cluster identifier, when the first registration attempt
  fails and the describe reports an empty status, \<open>CreateCluster\<close> is called, with the
  arn the describe returned. Whatever it answers (\<open>created\<close>), the whole run holds at
  most one CreateCluster request, and exactly that one when the creation succeeds. An
  error of the creation is the error of the call, and nothing is called after it. After
  a creation that succeeds the call is one more registration attempt against the
  resolved cluster identifier, the one the configuration holds from then on (the default
  cluster name), and its outcome is the outcome of the call.
\<close>

theorem C5_absent_cluster_is_created_then_registered:
  assumes "ClusterArn (config s) = []"
    and "registerContainerInstance env DEFAULT_CLUSTER_NAME s = (Return (Inl e), s1)"
    and "describeCluster env DEFAULT_CLUSTER_NAME s1 = (Inr (arn, []), s2)"
    and "CreateCluster env arn s2 = (created, s3)"
  shows "ClusterArn (config (snd (RegisterContainerInstance env s))) = DEFAULT_CLUSTER_NAME \<and>
         (\<exists>evs. trace (snd (RegisterContainerInstance env s)) = trace s @ evs \<and>
            length (createClusterCalls evs) \<le> 1 \<and>
            (\<forall>a. created = Inr a \<longrightarrow> createClusterCalls evs = [arn])) \<and>
         RegisterContainerInstance env s =
           (case created of
              Inl err \<Rightarrow> (Return (Inl err), deferred DEFAULT_CLUSTER_NAME s3)
            | Inr a \<Rightarrow>
                (fst (registerContainerInstance env DEFAULT_CLUSTER_NAME s3),
                 deferred DEFAULT_CLUSTER_NAME
                   (snd (registerContainerInstance env DEFAULT_CLUSTER_NAME s3))))"
proof -
  have "config (snd (RegisterContainerInstance env s)) = (config s)\<lparr>ClusterArn := DEFAULT_CLUSTER_NAME\<rparr>"
    using assms(1)
    by (auto simp: RegisterContainerInstance_def Let_def
      split: prod.splits outcome.splits sum.splits
      dest!: registerContainerInstance_config describeCluster_config CreateCluster_config)
  then have resolved: "ClusterArn (config (snd (RegisterContainerInstance env s))) = DEFAULT_CLUSTER_NAME"
    by simp
  have status: "[] = [] \<or> [] = ''ACTIVE''" by simp
  note branch = RegisterContainerInstance_create_branch [OF assms(1,2,3) status assms(4)]
  from resolved branch [THEN conjunct2] branch [THEN conjunct1] show ?thesis
    by (intro conjI)
qed

theorem C5_witness:
  "ClusterArn (config (client [] 1)) = [] \<and>
   fst (registerContainerInstance (simulated [] (Inr ''arn:cluster/default''))
     DEFAULT_CLUSTER_NAME (client [] 1)) = Return (Inl (Foreign ''ClusterNotFound'')) \<and>
   fst (describeCluster (simulated [] (Inr ''arn:cluster/default'')) DEFAULT_CLUSTER_NAME
     (snd (registerContainerInstance (simulated [] (Inr ''arn:cluster/default''))
       DEFAULT_CLUSTER_NAME (client [] 1)))) = Inr ([], []) \<and>
   fst (RegisterContainerInstance (simulated [] (Inr ''arn:cluster/default'')) (client [] 1)) =
     Return (Inr ''arn:instance'') \<and>
   createClusterCalls (trace (snd (RegisterContainerInstance
     (simulated [] (Inr ''arn:cluster/default'')) (client [] 1)))) = [[]] \<and>
   ClusterArn (config (snd (RegisterContainerInstance
     (simulated [] (Inr ''arn:cluster/default'')) (client [] 1)))) = DEFAULT_CLUSTER_NAME"
proof -
  let ?env = "simulated [] (Inr ''arn:cluster/default'')"
  let ?s1 = "snd (registerContainerInstance ?env DEFAULT_CLUSTER_NAME (client [] 1))"
  let ?s2 = "snd (describeCluster ?env DEFAULT_CLUSTER_NAME ?s1)"
  let ?s3 = "snd (CreateCluster ?env [] ?s2)"
  have empty: "ClusterArn (config (client [] 1)) = []"
    by simp
  have first: "fst (registerContainerInstance ?env DEFAULT_CLUSTER_NAME (client [] 1)) =
      Return (Inl (Foreign ''ClusterNotFound''))"
    by (simp add: run_defs)
  have described: "fst (describeCluster ?env DEFAULT_CLUSTER_NAME ?s1) = Inr ([], [])"
    by (simp add: run_defs)
  have created: "fst (CreateCluster ?env [] ?s2) = Inr ''arn:cluster/default''"
    by (simp add: run_defs)
  have outcome: "fst (RegisterContainerInstance ?env (client [] 1)) = Return (Inr ''arn:instance'')"
    by (simp add: run_defs)
  have attempt: "registerContainerInstance ?env DEFAULT_CLUSTER_NAME (client [] 1) =
      (Return (Inl (Foreign ''ClusterNotFound'')), ?s1)"
    using first by (simp add: prod_eq_iff)
  have describe: "describeCluster ?env DEFAULT_CLUSTER_NAME ?s1 = (Inr ([], []), ?s2)"
    using described by (simp add: prod_eq_iff)
  have create: "CreateCluster ?env [] ?s2 = (Inr ''arn:cluster/default'', ?s3)"
    using created by (simp add: prod_eq_iff)
  from C5_absent_cluster_is_created_then_registered [OF empty attempt describe create]
  show ?thesis using empty first described outcome by auto
qed

text \<open>
  C1, as amended. With an empty configured cluster identifier, when the first
  registration attempt fails and the describe reports the status \<open>ACTIVE\<close>,
  \<open>CreateCluster\<close> is called all the same, with the arn the describe returned: the
  guard of line 166 holds back a status that is neither empty nor \<open>ACTIVE\<close> and
  nothing else. The whole run holds at most one CreateCluster request, and exactly that
  one when the creation succeeds. An error of the creation is the error of the call;
  after a creation that succeeds the call is one more registration attempt, whose
  outcome is the outcome of the call.
\<close>

theorem C1_active_cluster_is_created_then_registered:
  assumes "ClusterArn (config s) = []"
    and "registerContainerInstance env DEFAULT_CLUSTER_NAME s = (Return (Inl e), s1)"
    and "describeCluster env DEFAULT_CLUSTER_NAME s1 = (Inr (arn, ''ACTIVE''), s2)"
    and "CreateCluster env arn s2 = (created, s3)"
  shows "(\<exists>evs. trace (snd (RegisterContainerInstance env s)) = trace s @ evs \<and>
            length (createClusterCalls evs) \<le> 1 \<and>
            (\<forall>a. created = Inr a \<longrightarrow> createClusterCalls evs = [arn])) \<and>
         (case created of
            Inl err \<Rightarrow>
              fst (RegisterContainerInstance env s) = Return (Inl err) \<and>
              trace (snd (RegisterContainerInstance env s)) = trace s3 \<and>
              world (snd (RegisterContainerInstance env s)) = world s3
          | Inr a \<Rightarrow>
              (\<exists>c. fst (RegisterContainerInstance env s) = fst (registerContainerInstance env c s3) \<and>
                 trace (snd (RegisterContainerInstance env s)) =
                   trace (snd (registerContainerInstance env c s3)) \<and>
                 world (snd (RegisterContainerInstance env s)) =
                   world (snd (registerContainerInstance env c s3))))"
proof -
  have status: "''ACTIVE'' = [] \<or> ''ACTIVE'' = ''ACTIVE''" by simp
  note branch = RegisterContainerInstance_create_branch [OF assms(1,2,3) status assms(4)]
  note run = branch [THEN conjunct1] and calls = branch [THEN conjunct2]
  have outcome: "case created of
            Inl err \<Rightarrow>
              fst (RegisterContainerInstance env s) = Return (Inl err) \<and>
              trace (snd (RegisterContainerInstance env s)) = trace s3 \<and>
              world (snd (RegisterContainerInstance env s)) = world s3
          | Inr a \<Rightarrow>
              (\<exists>c. fst (RegisterContainerInstance env s) = fst (registerContainerInstance env c s3) \<and>
                 trace (snd (RegisterContainerInstance env s)) =
                   trace (snd (registerContainerInstance env c s3)) \<and>
                 world (snd (RegisterContainerInstance env s)) =
                   world (snd (registerContainerInstance env c s3)))"
    unfolding run by (cases created) (auto intro!: exI [of _ DEFAULT_CLUSTER_NAME])
  from calls outcome show ?thesis ..
qed

theorem C1_witness:
  "ClusterArn (config (client [] 1)) = [] \<and>
   fst (registerContainerInstance (simulated activeDefault (Inr ''arn:created''))
     DEFAULT_CLUSTER_NAME (client [] 1)) = Return (Inl (Foreign ''ClusterNotFound'')) \<and>
   fst (describeCluster (simulated activeDefault (Inr ''arn:created'')) DEFAULT_CLUSTER_NAME
     (snd (registerContainerInstance (simulated activeDefault (Inr ''arn:created''))
       DEFAULT_CLUSTER_NAME (client [] 1)))) = Inr (''arn:cluster/default'', ''ACTIVE'') \<and>
   fst (RegisterContainerInstance (simulated activeDefault (Inr ''arn:created'')) (client [] 1)) =
     Return (Inr ''arn:instance'') \<and>
   createClusterCalls (trace (snd (RegisterContainerInstance
     (simulated activeDefault (Inr ''arn:created'')) (client [] 1)))) = [''arn:cluster/default'']"
proof -
  let ?env = "simulated activeDefault (Inr ''arn:created'')"
  let ?s1 = "snd (registerContainerInstance ?env DEFAULT_CLUSTER_NAME (client [] 1))"
  let ?s2 = "snd (describeCluster ?env DEFAULT_CLUSTER_NAME ?s1)"
  let ?s3 = "snd (CreateCluster ?env ''arn:cluster/default'' ?s2)"
  have empty: "ClusterArn (config (client [] 1)) = []"
    by simp
  have first: "fst (registerContainerInstance ?env DEFAULT_CLUSTER_NAME (client [] 1)) =
      Return (Inl (Foreign ''ClusterNotFound''))"
    by (simp add: run_defs)
  have described: "fst (describeCluster ?env DEFAULT_CLUSTER_NAME ?s1) =
      Inr (''arn:cluster/default'', ''ACTIVE'')"
    by (simp add: run_defs)
  have created: "fst (CreateCluster ?env ''arn:cluster/default'' ?s2) = Inr ''arn:created''"
    by (simp add: run_defs)
  have outcome: "fst (RegisterContainerInstance ?env (client [] 1)) = Return (Inr ''arn:instance'')"
    by (simp add: run_defs)
  have attempt: "registerContainerInstance ?env DEFAULT_CLUSTER_NAME (client [] 1) =
      (Return (Inl (Foreign ''ClusterNotFound'')), ?s1)"
    using first by (simp add: prod_eq_iff)
  have describe: "describeCluster ?env DEFAULT_CLUSTER_NAME ?s1 =
      (Inr (''arn:cluster/default'', ''ACTIVE''), ?s2)"
    using described by (simp add: prod_eq_iff)
  have create: "CreateCluster ?env ''arn:cluster/default'' ?s2 = (Inr ''arn:created'', ?s3)"
    using created by (simp add: prod_eq_iff)
  from C1_active_cluster_is_created_then_registered [OF empty attempt describe create]
  show ?thesis using empty first described outcome by auto
qed

text \<open>
  The claim as first stated fails on this run: the first attempt fails, the describe
  reports \<open>ACTIVE\<close> with the arn \<open>arn:cluster/default\<close>, and then CreateCluster is
  called with that arn and both registration requests name the default cluster, none
  the arn of the describe.
\<close>

theorem C1_counterexample:
  "ClusterArn (config (client [] 1)) = [] \<and>
   fst (registerContainerInstance (simulated activeDefault (Inr ''arn:created''))
     DEFAULT_CLUSTER_NAME (client [] 1)) = Return (Inl (Foreign ''ClusterNotFound'')) \<and>
   fst (describeCluster (simulated activeDefault (Inr ''arn:created'')) DEFAULT_CLUSTER_NAME
     (snd (registerContainerInstance (simulated activeDefault (Inr ''arn:created''))
       DEFAULT_CLUSTER_NAME (client [] 1)))) = Inr (''arn:cluster/default'', ''ACTIVE'') \<and>
   createClusterCalls (trace (snd (RegisterContainerInstance
     (simulated activeDefault (Inr ''arn:created'')) (client [] 1)))) = [''arn:cluster/default''] \<and>
   map regCluster (registerCalls (trace (snd (RegisterContainerInstance
     (simulated activeDefault (Inr ''arn:created'')) (client [] 1))))) =
     [Some ''default'', Some ''default'']"
  by (simp add: run_defs)

section \<open>The resources of a registration request\<close>

text \<open>
  C4. Every registration request that an attempt (\<open>registerContainerInstance\<close>) or a
  whole registration (\<open>RegisterContainerInstance\<close>) sends carries exactly three resource
  descriptors, named CPU, MEMORY and PORTS, of the kinds INTEGER, INTEGER and STRINGSET,
  for every configuration and every answer of the probes and of the other
  collaborators. An attempt that panics in the memory probe sends no request.
\<close>

theorem C4_registration_requests_carry_three_resources:
  "(\<exists>evs. trace (snd (registerContainerInstance env c s)) = trace s @ evs \<and>
      (\<forall>req \<in> set (registerCalls evs). threeResources req)) \<and>
   (\<exists>evs. trace (snd (RegisterContainerInstance env s)) = trace s @ evs \<and>
      (\<forall>req \<in> set (registerCalls evs). threeResources req))"
proof
  obtain r s' where run: "registerContainerInstance env c s = (r, s')"
    by (cases "registerContainerInstance env c s")
  from registerContainerInstance_effect [OF run]
  show "\<exists>evs. trace (snd (registerContainerInstance env c s)) = trace s @ evs \<and>
      (\<forall>req \<in> set (registerCalls evs). threeResources req)"
    unfolding run by auto
next
  show "\<exists>evs. trace (snd (RegisterContainerInstance env s)) = trace s @ evs \<and>
      (\<forall>req \<in> set (registerCalls evs). threeResources req)"
  proof (cases "ClusterArn (config s) = []")
    case True
    from RegisterContainerInstance_default_effect [OF True, of env]
    show ?thesis by blast
  next
    case False
    obtain r s' where run: "registerContainerInstance env (ClusterArn (config s)) s = (r, s')"
      by (cases "registerContainerInstance env (ClusterArn (config s)) s")
    have "RegisterContainerInstance env s = (r, s')"
      using False run by (simp add: RegisterContainerInstance_def)
    with registerContainerInstance_effect [OF run] show ?thesis by auto
  qed
qed

theorem C4_witness:
  "length (registerCalls (trace (snd (RegisterContainerInstance
     (simulated [] (Inr ''arn:cluster/default'')) (client [] 1))))) = 2 \<and>
   list_all threeResources (registerCalls (trace (snd (RegisterContainerInstance
     (simulated [] (Inr ''arn:cluster/default'')) (client [] 1)))))"
proof -
  have two: "length (registerCalls (trace (snd (RegisterContainerInstance
      (simulated [] (Inr ''arn:cluster/default'')) (client [] 1))))) = 2"
    by (simp add: run_defs)
  from C4_registration_requests_carry_three_resources
    [of "simulated [] (Inr ''arn:cluster/default'')" "[]" "client [] 1"]
  show ?thesis using two by (auto simp: list_all_iff)
qed

section \<open>State changes that are not reported\<close>

text \<open>
  C3. A task state change whose task status is \<open>TaskStatusNone\<close> is answered with
  \<open>NewStateChangeError(errors.New("SubmitTaskStateChange called with an invalid
  change"))\<close> and an unchanged state: no dial, no request, whatever the other fields
  (those of the record's extension included). The error wraps a locally built error,
  which the classification of section 7 of the specification makes non-retriable.
\<close>

theorem C3_unset_task_status_is_rejected:
  assumes "TaskStatus change = TaskStatusNone env"
  shows "SubmitTaskStateChange env change s =
           (Some (NewStateChangeError
              (ErrorsNew ''SubmitTaskStateChange called with an invalid change'')), s) \<and>
         \<not> Retry (NewStateChangeError
              (ErrorsNew ''SubmitTaskStateChange called with an invalid change''))"
  using assms by (simp add: SubmitTaskStateChange_def)

theorem C3_witness:
  "TaskStatus (aChange StatusRunning StatusNone) =
     TaskStatusNone (simulated [] (Inr [])) \<and>
   SubmitTaskStateChange (simulated [] (Inr [])) (aChange StatusRunning StatusNone)
       (client ''default'' 0) =
     (Some (NewStateChangeError
        (ErrorsNew ''SubmitTaskStateChange called with an invalid change'')),
      client ''default'' 0)"
proof -
  have unset: "TaskStatus (aChange StatusRunning StatusNone) =
      TaskStatusNone (simulated [] (Inr []))"
    by (simp add: aChange_def simulated_def)
  from C3_unset_task_status_is_rejected [OF unset, of "client ''default'' 0"]
  show ?thesis using unset by simp
qed

text \<open>
  C2, as amended. \<open>DEAD\<close> is reported as \<open>STOPPED\<close> and \<open>RUNNING\<close> as \<open>RUNNING\<close>. A task
  state change whose task status is not \<open>TaskStatusNone\<close> and whose reported status is
  neither \<open>RUNNING\<close> nor \<open>STOPPED\<close>, and a container state change whose reported
  status is neither, are answered with nil and an unchanged state: no dial, no request,
  whatever the other fields.
\<close>

theorem C2_unreported_status_is_a_silent_noop:
  "(TaskStatus change \<noteq> TaskStatusNone env \<and>
      reported (TaskStatus_String env (TaskStatus change)) \<notin> {''RUNNING'', ''STOPPED''} \<longrightarrow>
      SubmitTaskStateChange env change s = (None, s)) \<and>
   (reported (ContainerStatus_String env (Status change)) \<notin> {''RUNNING'', ''STOPPED''} \<longrightarrow>
      SubmitContainerStateChange env change s = (None, s)) \<and>
   reported ''DEAD'' = ''STOPPED'' \<and> reported ''RUNNING'' = ''RUNNING''"
  by (simp add: SubmitTaskStateChange_def SubmitContainerStateChange_def Let_def reported_def)

theorem C2_witness:
  "TaskStatus (aChange StatusCreated StatusCreated) \<noteq> TaskStatusNone (simulated [] (Inr [])) \<and>
   reported (TaskStatus_String (simulated [] (Inr []))
     (TaskStatus (aChange StatusCreated StatusCreated))) \<notin> {''RUNNING'', ''STOPPED''} \<and>
   reported (ContainerStatus_String (simulated [] (Inr []))
     (Status (aChange StatusCreated StatusCreated))) \<notin> {''RUNNING'', ''STOPPED''} \<and>
   SubmitTaskStateChange (simulated [] (Inr [])) (aChange StatusCreated StatusCreated)
     (client ''default'' 0) = (None, client ''default'' 0) \<and>
   SubmitContainerStateChange (simulated [] (Inr [])) (aChange StatusCreated StatusCreated)
     (client ''default'' 0) = (None, client ''default'' 0)"
proof -
  have status: "TaskStatus (aChange StatusCreated StatusCreated) \<noteq>
      TaskStatusNone (simulated [] (Inr []))"
    "reported (TaskStatus_String (simulated [] (Inr []))
      (TaskStatus (aChange StatusCreated StatusCreated))) \<notin> {''RUNNING'', ''STOPPED''}"
    "reported (ContainerStatus_String (simulated [] (Inr []))
      (Status (aChange StatusCreated StatusCreated))) \<notin> {''RUNNING'', ''STOPPED''}"
    by (simp_all add: aChange_def simulated_def reported_def)
  from C2_unreported_status_is_a_silent_noop
    [of "aChange StatusCreated StatusCreated" "simulated [] (Inr [])" "client ''default'' 0"]
  show ?thesis using status by simp
qed

text \<open>
  The claim as first stated fails on a task state change with the task status
  \<open>TaskStatusNone\<close>: its reported status is neither \<open>RUNNING\<close> nor \<open>STOPPED\<close>, and
  the answer is an error.
\<close>

theorem C2_counterexample:
  "reported (TaskStatus_String (simulated [] (Inr []))
      (TaskStatus (aChange StatusCreated StatusNone))) \<notin> {''RUNNING'', ''STOPPED''} \<and>
   SubmitTaskStateChange (simulated [] (Inr [])) (aChange StatusCreated StatusNone) (client ''c'' 0) =
     (Some (NewStateChangeError
        (ErrorsNew ''SubmitTaskStateChange called with an invalid change'')), client ''c'' 0)"
  by (simp add: SubmitTaskStateChange_def simulated_def aChange_def reported_def)

text \<open>
  C10. \<open>SubmitContainerStateChange\<close> never rejects a change. Whatever the container
  status is, the unset one included, as soon as its reported status is neither
  \<open>RUNNING\<close> nor \<open>STOPPED\<close> the answer is nil and the state is unchanged; an error is
  only ever returned after the dial. \<open>SubmitTaskStateChange\<close> answers a change with
  the task status \<open>TaskStatusNone\<close> with an error, the state unchanged.
\<close>

theorem C10_container_change_is_not_validated:
  "(reported (ContainerStatus_String env (Status change)) \<notin> {''RUNNING'', ''STOPPED''} \<longrightarrow>
      SubmitContainerStateChange env change s = (None, s)) \<and>
   (fst (SubmitContainerStateChange env change s) \<noteq> None \<longrightarrow>
      trace (snd (SubmitContainerStateChange env change s)) \<noteq> trace s) \<and>
   (TaskStatus change = TaskStatusNone env \<longrightarrow>
      fst (SubmitTaskStateChange env change s) \<noteq> None \<and>
      snd (SubmitTaskStateChange env change s) = s)"
  by (auto simp: SubmitTaskStateChange_def SubmitContainerStateChange_def Let_def
      split: prod.splits option.splits dest!: serviceClient_effect)

theorem C10_witness:
  "reported (ContainerStatus_String (simulated [] (Inr []))
     (Status (aChange StatusNone StatusNone))) \<notin> {''RUNNING'', ''STOPPED''} \<and>
   TaskStatus (aChange StatusNone StatusNone) = TaskStatusNone (simulated [] (Inr [])) \<and>
   SubmitContainerStateChange (simulated [] (Inr [])) (aChange StatusNone StatusNone)
     (client ''default'' 0) = (None, client ''default'' 0) \<and>
   fst (SubmitTaskStateChange (simulated [] (Inr [])) (aChange StatusNone StatusNone)
     (client ''default'' 0)) \<noteq> None"
proof -
  have status: "reported (ContainerStatus_String (simulated [] (Inr []))
      (Status (aChange StatusNone StatusNone))) \<notin> {''RUNNING'', ''STOPPED''}"
    "TaskStatus (aChange StatusNone StatusNone) = TaskStatusNone (simulated [] (Inr []))"
    by (simp_all add: aChange_def simulated_def reported_def)
  from C10_container_change_is_not_validated
    [of "simulated [] (Inr [])" "aChange StatusNone StatusNone" "client ''default'' 0"]
  show ?thesis using status by simp
qed

section \<open>The network bindings of a container state change\<close>

lemmas binding_defs = networkBindingsOf_def newString_def newInt32_def emptyStore_def
  serialised_def NewNetworkBinding_def twoBindings_def

lemma rangePortBindings_run:
  "length rest = length bs \<Longrightarrow>
   rangePortBindings a bs (length built) (built @ rest) h =
     (built @ allocated a (nextAddr h) bs, storeAfter a bs h)"
proof (induction bs arbitrary: built rest h)
  case Nil
  then show ?case by simp
next
  case (Cons b bs)
  then obtain r rest' where rest: "rest = r # rest'" "length rest' = length bs"
    by (cases rest) auto
  let ?x = "\<lparr>pBindIP = Some a, pHostPort = Some (nextAddr h),
              pContainerPort = Some (Suc (nextAddr h))\<rparr>"
  have "length (built @ [?x]) = Suc (length built)" by simp
  with Cons.IH [OF rest(2), of "built @ [?x]"] show ?case
    by (simp add: rest newInt32_def NewNetworkBinding_def Let_def)
qed

lemma storeAfter_frame: "p < nextAddr h \<Longrightarrow> i32Cell (storeAfter a bs h) p = i32Cell h p"
proof (induction bs arbitrary: h)
  case Nil
  show ?case by simp
next
  case (Cons b bs)
  then show ?case by simp
qed

lemma storeAfter_binding:
  "strCell (storeAfter a bs h) a = (if bs = [] then strCell h a else BindIp (last bs))"
  by (induction bs arbitrary: h) simp_all

lemma serialised_allocated:
  "map (serialised (storeAfter a bs h)) (allocated a (nextAddr h) bs) =
     map (\<lambda>b. \<lparr>nbBindIP = Some (strCell (storeAfter a bs h) a),
                nbHostPort = Some (ucast (HostPort b)),
                nbContainerPort = Some (ucast (ContainerPort b))\<rparr>) bs"
proof (induction bs arbitrary: h)
  case Nil
  show ?case by simp
next
  case (Cons b bs)
  let ?h = "h\<lparr>strCell := (strCell h)(a := BindIp b),
          i32Cell := (i32Cell h)(nextAddr h := ucast (HostPort b),
                                 Suc (nextAddr h) := ucast (ContainerPort b)),
          nextAddr := Suc (Suc (nextAddr h))\<rparr>"
  have "i32Cell (storeAfter a bs ?h) (nextAddr h) = ucast (HostPort b)"
    "i32Cell (storeAfter a bs ?h) (Suc (nextAddr h)) = ucast (ContainerPort b)"
    by (simp_all add: storeAfter_frame)
  with Cons [of ?h] show ?case by (simp add: serialised_def)
qed

lemma networkBindingsOf_eq:
  "networkBindingsOf bs =
     map (\<lambda>b. \<lparr>nbBindIP = Some (BindIp (last bs)),
                nbHostPort = Some (ucast (HostPort b)),
                nbContainerPort = Some (ucast (ContainerPort b))\<rparr>) bs"
proof -
  let ?h = "snd (newString [] emptyStore)"
  have "rangePortBindings 0 bs (length ([] :: NetworkBindingObject list))
          ([] @ replicate (length bs) NewNetworkBinding) ?h =
        ([] @ allocated 0 (nextAddr ?h) bs, storeAfter 0 bs ?h)"
    by (rule rangePortBindings_run) simp
  then have "networkBindingsOf bs = map (serialised (storeAfter 0 bs ?h)) (allocated 0 (nextAddr ?h) bs)"
    by (simp add: networkBindingsOf_def newString_def emptyStore_def)
  then show ?thesis
    by (cases "bs = []") (simp_all add: serialised_allocated storeAfter_binding)
qed

text \<open>
  What a submitted container state change sends once the dial has succeeded: one request,
  with as many network bindings as the change has port bindings, in their order, each
  with the host port and the container port of its port binding; the exit code is set
  exactly when the change has one. The bind address of every network binding is the one
  of the last port binding.
\<close>

lemma SubmitContainerStateChange_request:
  assumes "reported (ContainerStatus_String env (Status change)) \<in> {''RUNNING'', ''STOPPED''}"
    and "fst (serviceClient env s) = None"
  shows "\<exists>req. trace (snd (SubmitContainerStateChange env change s)) =
           trace s @ [Call_TLS (APIEndpoint (config s)) (APIPort (config s)) (insecureSkipVerify s),
                      Call_SubmitContainerStateChange req] \<and>
           length (cscNetworkBindings req) = length (PortBindings change) \<and>
           map nbHostPort (cscNetworkBindings req) =
             map (\<lambda>b. Some (ucast (HostPort b))) (PortBindings change) \<and>
           map nbContainerPort (cscNetworkBindings req) =
             map (\<lambda>b. Some (ucast (ContainerPort b))) (PortBindings change) \<and>
           map nbBindIP (cscNetworkBindings req) =
             map (\<lambda>b. Some (BindIp (last (PortBindings change)))) (PortBindings change) \<and>
           (cscExitCode req = None) = (ExitCode change = None)"
proof -
  obtain s1 where dial: "serviceClient env s = (None, s1)"
    using assms(2) by (cases "serviceClient env s") simp
  from serviceClient_effect [OF dial] show ?thesis
    using assms(1) dial
    by (auto simp: SubmitContainerStateChange_def Let_def networkBindingsOf_eq comp_def
        NewSubmitContainerStateChangeRequest_def
        split: prod.splits option.splits)
qed

text \<open>
  C8. The claim fails on a change with two port bindings that are bound to different
  addresses. Line 296 hands the setter the address of \<open>binding.BindIp\<close>, a field of the
  one variable of the loop, where lines 297 to 300 copy the two ports into variables of
  the iteration first. When the request is sent, both network bindings carry the bind
  address of the second port binding; count, order, ports and exit code are as claimed.
\<close>

theorem C8_every_binding_carries_the_last_bind_address:
  "map BindIp (PortBindings (aChange StatusRunning StatusRunning)) =
     [''10.0.0.1'', ''10.0.0.2''] \<and>
   SubmitContainerStateChange (simulated [] (Inr [])) (aChange StatusRunning StatusRunning)
       (client ''default'' 0) =
     (None,
      (client ''default'' 0)\<lparr>trace :=
        [Call_TLS ''ecs.us-east-1.amazonaws.com'' 443 False,
         Call_SubmitContainerStateChange
           \<lparr>cscTask = Some ''arn:task/1'', cscContainerName = Some ''web'',
            cscStatus = Some ''RUNNING'', cscCluster = Some ''default'', cscExitCode = None,
            cscNetworkBindings =
              [\<lparr>nbBindIP = Some ''10.0.0.2'', nbHostPort = Some 8080, nbContainerPort = Some 80\<rparr>,
               \<lparr>nbBindIP = Some ''10.0.0.2'', nbHostPort = Some 8443,
                nbContainerPort = Some 443\<rparr>]\<rparr>]\<rparr>)"
  by (simp add: run_defs binding_defs)

end
